theory Spec2Isabelle
  imports Complex_Main
begin

section \<open>The battery simulation of app.py\<close>

text \<open>
  The script reads quarter-hour meter values, walks through them once while it keeps the
  battery level, and then derives dwell times and savings from the rows it collected.
  Python floats are modelled as exact reals: rounding is not part of the model, and neither
  are NaN and infinity. In the script's doubles the battery level can end one rounding step
  outside its bounds, and the next charge or discharge is then negative by that much; the
  statements that compare emitted values with a bound therefore carry a tolerance. Every
  quotient of the script divides by \<open>eff * vertraging + 1e-9\<close>, which is positive as
  soon as the efficiency is not negative; the theorems that depend on a quotient assume that.
\<close>

subsection \<open>Settings of the sidebar (lines 22 to 31)\<close>

record instellingen =
  batterij_capaciteit :: real
  max_vermogen_kW :: real
  eff_laden :: real
  eff_ontladen :: real
  soc_min_pct :: real
  soc_max_pct :: real
  reactietijd_laden :: real
  reactietijd_ontladen :: real
  prijs_import :: real
  prijs_export :: real

text \<open>
  The ranges the widgets allow: \<open>number_input\<close> with its \<open>min_value\<close> and
  \<open>max_value\<close>, the sliders with their two ends (the efficiency sliders run from 70 to
  100 and are divided by 100). The two prices have no range.
\<close>

definition sidebar_bereik :: "instellingen \<Rightarrow> bool" where
  "sidebar_bereik c \<longleftrightarrow>
     1 \<le> batterij_capaciteit c \<and> batterij_capaciteit c \<le> 100 \<and>
     1 / 10 \<le> max_vermogen_kW c \<and> max_vermogen_kW c \<le> 20 \<and>
     70 / 100 \<le> eff_laden c \<and> eff_laden c \<le> 1 \<and>
     70 / 100 \<le> eff_ontladen c \<and> eff_ontladen c \<le> 1 \<and>
     0 \<le> soc_min_pct c \<and> soc_min_pct c \<le> 50 \<and>
     50 \<le> soc_max_pct c \<and> soc_max_pct c \<le> 100 \<and>
     0 \<le> reactietijd_laden c \<and> reactietijd_laden c \<le> 60 \<and>
     0 \<le> reactietijd_ontladen c \<and> reactietijd_ontladen c \<le> 60"

text \<open>The values the widgets show when nothing is touched.\<close>

definition standaard :: instellingen where
  "standaard =
     \<lparr>batterij_capaciteit = 5, max_vermogen_kW = 25 / 10,
      eff_laden = 95 / 100, eff_ontladen = 95 / 100,
      soc_min_pct = 10, soc_max_pct = 90,
      reactietijd_laden = 10, reactietijd_ontladen = 10,
      prijs_import = 30 / 100, prijs_export = 7 / 100\<rparr>"

subsection \<open>Derived settings (lines 54 to 60)\<close>

definition kwartier_uur :: real where
  "kwartier_uur = 25 / 100"

definition max_energie_per_kwartier :: "instellingen \<Rightarrow> real" where
  "max_energie_per_kwartier c = max_vermogen_kW c * kwartier_uur"

definition soc_min :: "instellingen \<Rightarrow> real" where
  "soc_min c = soc_min_pct c / 100 * batterij_capaciteit c"

definition soc_max :: "instellingen \<Rightarrow> real" where
  "soc_max c = soc_max_pct c / 100 * batterij_capaciteit c"

definition vertraging_laden :: "instellingen \<Rightarrow> real" where
  "vertraging_laden c = max 0 (min 1 (1 - reactietijd_laden c / 900))"

definition vertraging_ontladen :: "instellingen \<Rightarrow> real" where
  "vertraging_ontladen c = max 0 (min 1 (1 - reactietijd_ontladen c / 900))"

text \<open>The constant \<open>1e-9\<close> that guards both divisions.\<close>

definition epsilon_deler :: real where
  "epsilon_deler = 1 / 1000000000"

subsection \<open>One quarter hour (lines 68 to 99)\<close>

text \<open>A row of \<open>df_kwartier\<close>: the time stamp and the two summed energies.\<close>

record kwartier =
  datetime :: nat
  afname :: real
  injectie :: real

text \<open>A row of \<open>resultaten\<close>, with the keys of the dictionary the loop appends.\<close>

record resultaat =
  tijd :: nat
  afname_kWh :: real
  injectie_kWh :: real
  opladen_kWh :: real
  ontladen_kWh :: real
  van_net_kWh :: real
  naar_net_kWh :: real
  batterij_niveau_kWh :: real

text \<open>
  Charging (lines 74 to 78). The first argument after the settings is the battery level
  before the step. Python's \<open>min\<close> of three values is the least of them.
\<close>

definition potentieel_opladen :: "instellingen \<Rightarrow> real \<Rightarrow> real" where
  "potentieel_opladen c inje = inje * eff_laden c * vertraging_laden c"

definition effectief_opladen :: "instellingen \<Rightarrow> real \<Rightarrow> real \<Rightarrow> real" where
  "effectief_opladen c niveau inje =
     min (potentieel_opladen c inje) (min (max_energie_per_kwartier c) (soc_max c - niveau))"

definition naar_net :: "instellingen \<Rightarrow> real \<Rightarrow> real \<Rightarrow> real" where
  "naar_net c niveau inje =
     max (inje - effectief_opladen c niveau inje
                  / (eff_laden c * vertraging_laden c + epsilon_deler)) 0"

text \<open>
  Discharging (lines 81 to 86). Here the level argument is the one the charging phase
  left behind, since line 76 has already updated \<open>batterij_niveau\<close>.
\<close>

definition potentieel_ontladen :: "instellingen \<Rightarrow> real \<Rightarrow> real \<Rightarrow> real" where
  "potentieel_ontladen c niveau afn =
     min (afn / (eff_ontladen c * vertraging_ontladen c + epsilon_deler))
         (min (max_energie_per_kwartier c) (niveau - soc_min c))"

definition effectief_ontladen :: "instellingen \<Rightarrow> real \<Rightarrow> real \<Rightarrow> real" where
  "effectief_ontladen c niveau afn =
     potentieel_ontladen c niveau afn * eff_ontladen c * vertraging_ontladen c"

definition van_net :: "instellingen \<Rightarrow> real \<Rightarrow> real \<Rightarrow> real" where
  "van_net c niveau afn = max (afn - effectief_ontladen c niveau afn) 0"

text \<open>The state the loop carries: the battery level, the five totals and the rows.\<close>

record toestand =
  batterij_niveau :: real
  energie_op_batterij :: real
  energie_van_net :: real
  energie_naar_net :: real
  energie_zonder_batterij_van_net :: real
  energie_zonder_batterij_naar_net :: real
  resultaten :: "resultaat list"

definition begin_toestand :: "instellingen \<Rightarrow> toestand" where
  "begin_toestand c =
     \<lparr>batterij_niveau = batterij_capaciteit c / 2,
      energie_op_batterij = 0, energie_van_net = 0, energie_naar_net = 0,
      energie_zonder_batterij_van_net = 0, energie_zonder_batterij_naar_net = 0,
      resultaten = []\<rparr>"

text \<open>The body of the loop, line by line.\<close>

definition stap :: "instellingen \<Rightarrow> toestand \<Rightarrow> kwartier \<Rightarrow> toestand" where
  "stap c s r =
     (let afn = afname r;
          inje = injectie r;
          opl = effectief_opladen c (batterij_niveau s) inje;
          niveau_geladen = batterij_niveau s + opl;
          nn = naar_net c (batterij_niveau s) inje;
          pot = potentieel_ontladen c niveau_geladen afn;
          ontl = effectief_ontladen c niveau_geladen afn;
          niveau_nieuw = niveau_geladen - pot;
          vn = van_net c niveau_geladen afn
      in \<lparr>batterij_niveau = niveau_nieuw,
          energie_op_batterij = energie_op_batterij s + opl,
          energie_van_net = energie_van_net s + vn,
          energie_naar_net = energie_naar_net s + nn,
          energie_zonder_batterij_van_net = energie_zonder_batterij_van_net s + afn,
          energie_zonder_batterij_naar_net = energie_zonder_batterij_naar_net s + inje,
          resultaten = resultaten s @
            [\<lparr>tijd = datetime r, afname_kWh = afn, injectie_kWh = inje,
              opladen_kWh = opl, ontladen_kWh = ontl,
              van_net_kWh = vn, naar_net_kWh = nn,
              batterij_niveau_kWh = niveau_nieuw\<rparr>]\<rparr>)"

text \<open>The loop over the rows of \<open>df_kwartier\<close>, and the whole pass from line 54 on.\<close>

fun lus :: "instellingen \<Rightarrow> toestand \<Rightarrow> kwartier list \<Rightarrow> toestand" where
  "lus c s [] = s"
| "lus c s (r # rs) = lus c (stap c s r) rs"

definition simulatie :: "instellingen \<Rightarrow> kwartier list \<Rightarrow> toestand" where
  "simulatie c rs = lus c (begin_toestand c) rs"

subsection \<open>Full and empty time (lines 101 to 111)\<close>

text \<open>
  With no rows at all, \<open>pd.DataFrame([])\<close> is a frame without columns, and line 104
  raises \<open>KeyError\<close> when it reads the column of the battery level: the script stops
  there, before the division of line 110 (which would be zero by zero).
\<close>

datatype fout = KeyError

definition is_vol :: "instellingen \<Rightarrow> resultaat \<Rightarrow> bool" where
  "is_vol c t \<longleftrightarrow> batterij_niveau_kWh t \<ge> soc_max c - 1 / 1000000"

definition is_leeg :: "instellingen \<Rightarrow> resultaat \<Rightarrow> bool" where
  "is_leeg c t \<longleftrightarrow> batterij_niveau_kWh t \<le> soc_min c + 1 / 1000000"

definition tijd_vol_uren :: "instellingen \<Rightarrow> resultaat list \<Rightarrow> real" where
  "tijd_vol_uren c res = real (length (filter (is_vol c) res)) * kwartier_uur"

definition tijd_leeg_uren :: "instellingen \<Rightarrow> resultaat list \<Rightarrow> real" where
  "tijd_leeg_uren c res = real (length (filter (is_leeg c) res)) * kwartier_uur"

definition tijd_totaal_uren :: "resultaat list \<Rightarrow> real" where
  "tijd_totaal_uren res = real (length res) * kwartier_uur"

definition pct_vol :: "instellingen \<Rightarrow> resultaat list \<Rightarrow> fout + real" where
  "pct_vol c res =
     (if res = [] then Inl KeyError
      else Inr (100 * tijd_vol_uren c res / tijd_totaal_uren res))"

definition pct_leeg :: "instellingen \<Rightarrow> resultaat list \<Rightarrow> fout + real" where
  "pct_leeg c res =
     (if res = [] then Inl KeyError
      else Inr (100 * tijd_leeg_uren c res / tijd_totaal_uren res))"

subsection \<open>Savings (lines 114 and 115, 141 to 148)\<close>

definition besparing :: "instellingen \<Rightarrow> toestand \<Rightarrow> real" where
  "besparing c s =
     (energie_zonder_batterij_van_net s - energie_van_net s) * prijs_import c
     + (energie_naar_net s - energie_zonder_batterij_naar_net s) * prijs_export c"

text \<open>
  \<open>groupby(...)[col].sum()\<close>: one entry per key that occurs, the keys in ascending order,
  each with the sum of the column over the rows of that key. The function \<open>p\<close> stands for
  \<open>dt.to_period("M")\<close>, the month a time stamp falls in; the theorems hold for every
  such function, so for every way of cutting time into months.
\<close>

definition groepen :: "(nat \<Rightarrow> nat) \<Rightarrow> nat list \<Rightarrow> nat list" where
  "groepen p ts = sort (remdups (map p ts))"

definition groep_som :: "(nat \<Rightarrow> nat) \<Rightarrow> ('a \<Rightarrow> nat) \<Rightarrow> ('a \<Rightarrow> real) \<Rightarrow> 'a list \<Rightarrow> nat \<Rightarrow> real" where
  "groep_som p t col rows k = sum_list (map col (filter (\<lambda>x. p (t x) = k) rows))"

text \<open>
  The monthly table: month and profit. The four series carry the same index, as the rows of
  \<open>res\<close> have the time stamps of \<open>df_kwartier\<close> (lemma \<open>tijd_resultaten\<close> below).
\<close>

definition maand_winst ::
  "(nat \<Rightarrow> nat) \<Rightarrow> instellingen \<Rightarrow> kwartier list \<Rightarrow> resultaat list \<Rightarrow> (nat \<times> real) list" where
  "maand_winst p c df res =
     map (\<lambda>k. (k,
            (groep_som p datetime afname df k - groep_som p tijd van_net_kWh res k)
              * prijs_import c
            + (groep_som p tijd naar_net_kWh res k - groep_som p datetime injectie df k)
              * prijs_export c))
         (groepen p (map tijd res))"

subsection \<open>The summary (lines 117 to 129) and the whole run\<close>

record samenvatting =
  eindtoestand :: toestand
  batterij_vol_uren :: real
  batterij_leeg_uren :: real
  batterij_vol_pct :: real
  batterij_leeg_pct :: real
  besparing_euro :: real

text \<open>
  Everything below \<open>if uploaded_file\<close> once \<open>df_kwartier\<close> exists: the loop, the
  dwell times, the savings. No line between 54 and 129 checks a setting or a value; the
  only way not to reach the summary is the \<open>KeyError\<close> of line 104.
\<close>

definition simulatie_uitvoeren :: "instellingen \<Rightarrow> kwartier list \<Rightarrow> fout + samenvatting" where
  "simulatie_uitvoeren c df =
     (let s = simulatie c df; res = resultaten s
      in case pct_vol c res of
           Inl e \<Rightarrow> Inl e
         | Inr pv \<Rightarrow>
             (case pct_leeg c res of
                Inl e \<Rightarrow> Inl e
              | Inr pl \<Rightarrow>
                  Inr \<lparr>eindtoestand = s,
                       batterij_vol_uren = tijd_vol_uren c res,
                       batterij_leeg_uren = tijd_leeg_uren c res,
                       batterij_vol_pct = pv,
                       batterij_leeg_pct = pl,
                       besparing_euro = besparing c s\<rparr>))"

subsection \<open>Settings and rows used as examples\<close>

text \<open>The defaults with both reaction times at 0 seconds.\<close>

definition zonder_reactietijd :: instellingen where
  "zonder_reactietijd = standaard\<lparr>reactietijd_laden := 0, reactietijd_ontladen := 0\<rparr>"

text \<open>Both state-of-charge sliders at 50, the one value they share.\<close>

definition soc_gelijk :: instellingen where
  "soc_gelijk = standaard\<lparr>soc_min_pct := 50, soc_max_pct := 50\<rparr>"

text \<open>The lower slider at 50: the battery starts exactly at its lower bound.\<close>

definition start_op_minimum :: instellingen where
  "start_op_minimum = standaard\<lparr>soc_min_pct := 50\<rparr>"

text \<open>A capacity of zero, below the least value the number input takes.\<close>

definition geen_batterij :: instellingen where
  "geen_batterij = standaard\<lparr>batterij_capaciteit := 0\<rparr>"

definition kw :: "nat \<Rightarrow> real \<Rightarrow> real \<Rightarrow> kwartier" where
  "kw t a i = \<lparr>datetime = t, afname = a, injectie = i\<rparr>"


text \<open>The unfolding that evaluates a step on given numbers.\<close>

lemmas stap_uitrekenen =
  simulatie_def begin_toestand_def stap_def Let_def kw_def
  effectief_opladen_def potentieel_opladen_def naar_net_def
  potentieel_ontladen_def effectief_ontladen_def van_net_def
  max_energie_per_kwartier_def kwartier_uur_def soc_min_def soc_max_def
  vertraging_laden_def vertraging_ontladen_def epsilon_deler_def

lemmas voorbeelden =
  standaard_def zonder_reactietijd_def soc_gelijk_def start_op_minimum_def
  geen_batterij_def

section \<open>Properties of one step\<close>

lemma vertraging_laden_grenzen: "0 \<le> vertraging_laden c \<and> vertraging_laden c \<le> 1"
  by (simp add: vertraging_laden_def)

lemma vertraging_ontladen_grenzen: "0 \<le> vertraging_ontladen c \<and> vertraging_ontladen c \<le> 1"
  by (simp add: vertraging_ontladen_def)

lemma deler_laden_pos:
  assumes "0 \<le> eff_laden c"
  shows "0 < eff_laden c * vertraging_laden c + epsilon_deler"
proof -
  have "0 \<le> eff_laden c * vertraging_laden c"
    using assms vertraging_laden_grenzen by simp
  moreover have "0 < epsilon_deler" by (simp add: epsilon_deler_def)
  ultimately show ?thesis by linarith
qed

lemma deler_ontladen_pos:
  assumes "0 \<le> eff_ontladen c"
  shows "0 < eff_ontladen c * vertraging_ontladen c + epsilon_deler"
proof -
  have "0 \<le> eff_ontladen c * vertraging_ontladen c"
    using assms vertraging_ontladen_grenzen by simp
  moreover have "0 < epsilon_deler" by (simp add: epsilon_deler_def)
  ultimately show ?thesis by linarith
qed

lemma max_energie_nonneg: "0 \<le> max_vermogen_kW c \<Longrightarrow> 0 \<le> max_energie_per_kwartier c"
  by (simp add: max_energie_per_kwartier_def kwartier_uur_def)

lemma potentieel_ontladen_nonneg:
  assumes "0 \<le> eff_ontladen c" "0 \<le> max_vermogen_kW c" "0 \<le> afn" "soc_min c \<le> niveau"
  shows "0 \<le> potentieel_ontladen c niveau afn"
proof -
  have "0 \<le> afn / (eff_ontladen c * vertraging_ontladen c + epsilon_deler)"
    using assms(3) deler_ontladen_pos [OF assms(1)] by simp
  then show ?thesis
    using max_energie_nonneg [OF assms(2)] assms(4) by (simp add: potentieel_ontladen_def)
qed

lemma potentieel_ontladen_ruimte: "potentieel_ontladen c niveau afn \<le> niveau - soc_min c"
  by (simp add: potentieel_ontladen_def)

lemma effectief_opladen_ruimte: "effectief_opladen c niveau inje \<le> soc_max c - niveau"
  by (simp add: effectief_opladen_def)

lemma effectief_opladen_nonneg:
  assumes "0 \<le> eff_laden c" "0 \<le> max_vermogen_kW c" "0 \<le> inje" "niveau \<le> soc_max c"
  shows "0 \<le> effectief_opladen c niveau inje"
proof -
  have "0 \<le> inje * eff_laden c * vertraging_laden c"
    using assms(1,3) vertraging_laden_grenzen by simp
  then show ?thesis
    using max_energie_nonneg [OF assms(2)] assms(4)
    by (simp add: effectief_opladen_def potentieel_opladen_def)
qed

lemma batterij_niveau_stap:
  "batterij_niveau (stap c s r) =
     batterij_niveau s + effectief_opladen c (batterij_niveau s) (injectie r)
     - potentieel_ontladen c
         (batterij_niveau s + effectief_opladen c (batterij_niveau s) (injectie r)) (afname r)"
  by (simp add: stap_def Let_def)

lemma resultaten_stap:
  "resultaten (stap c s r) = resultaten s @
     [\<lparr>tijd = datetime r, afname_kWh = afname r, injectie_kWh = injectie r,
       opladen_kWh = effectief_opladen c (batterij_niveau s) (injectie r),
       ontladen_kWh = effectief_ontladen c
         (batterij_niveau s + effectief_opladen c (batterij_niveau s) (injectie r)) (afname r),
       van_net_kWh = van_net c
         (batterij_niveau s + effectief_opladen c (batterij_niveau s) (injectie r)) (afname r),
       naar_net_kWh = naar_net c (batterij_niveau s) (injectie r),
       batterij_niveau_kWh = batterij_niveau (stap c s r)\<rparr>]"
  by (simp add: stap_def Let_def)

lemma stap_totalen:
  "energie_van_net (stap c s r) = energie_van_net s + van_net_kWh (last (resultaten (stap c s r)))"
  "energie_naar_net (stap c s r) = energie_naar_net s + naar_net_kWh (last (resultaten (stap c s r)))"
  "energie_zonder_batterij_van_net (stap c s r) = energie_zonder_batterij_van_net s + afname r"
  "energie_zonder_batterij_naar_net (stap c s r) = energie_zonder_batterij_naar_net s + injectie r"
  "resultaten (stap c s r) = resultaten s @ [last (resultaten (stap c s r))]"
  "tijd (last (resultaten (stap c s r))) = datetime r"
  by (simp_all add: stap_def Let_def)

text \<open>
  Whatever the level before the step, the level after it lies between the two bounds: the
  charging phase cannot pass the upper one, the discharging phase cannot pass the lower one.
\<close>

lemma stap_grenzen:
  assumes "soc_min c \<le> soc_max c" "0 \<le> max_vermogen_kW c" "0 \<le> eff_ontladen c"
    and "0 \<le> afname r"
  shows "soc_min c \<le> batterij_niveau (stap c s r) \<and> batterij_niveau (stap c s r) \<le> soc_max c"
proof -
  define n1 where "n1 = batterij_niveau s + effectief_opladen c (batterij_niveau s) (injectie r)"
  have n1_max: "n1 \<le> soc_max c"
    using effectief_opladen_ruimte [of c "batterij_niveau s" "injectie r"] by (simp add: n1_def)
  have eq: "batterij_niveau (stap c s r) = n1 - potentieel_ontladen c n1 (afname r)"
    by (simp add: batterij_niveau_stap n1_def)
  have lo: "soc_min c \<le> n1 - potentieel_ontladen c n1 (afname r)"
    using potentieel_ontladen_ruimte [of c n1 "afname r"] by linarith
  have q: "0 \<le> afname r / (eff_ontladen c * vertraging_ontladen c + epsilon_deler)"
    using assms(4) deler_ontladen_pos [OF assms(3)] by simp
  have "n1 - soc_max c \<le> potentieel_ontladen c n1 (afname r)"
    using q max_energie_nonneg [OF assms(2)] n1_max assms(1)
    by (simp add: potentieel_ontladen_def)
  then have hi: "n1 - potentieel_ontladen c n1 (afname r) \<le> soc_max c" by linarith
  show ?thesis using lo hi eq by simp
qed

lemma sidebar_soc:
  assumes "sidebar_bereik c"
  shows "soc_min c \<le> soc_max c"
proof -
  have "soc_min_pct c / 100 \<le> soc_max_pct c / 100" and "0 \<le> batterij_capaciteit c"
    using assms by (simp_all add: sidebar_bereik_def)
  then show ?thesis unfolding soc_min_def soc_max_def by (rule mult_right_mono)
qed

section \<open>Properties of the loop\<close>

lemma lus_grenzen:
  assumes "soc_min c \<le> soc_max c" "0 \<le> max_vermogen_kW c" "0 \<le> eff_ontladen c"
  shows "\<forall>r \<in> set rs. 0 \<le> afname r \<Longrightarrow>
         \<forall>t \<in> set (resultaten s).
            soc_min c \<le> batterij_niveau_kWh t \<and> batterij_niveau_kWh t \<le> soc_max c \<Longrightarrow>
         \<forall>t \<in> set (resultaten (lus c s rs)).
            soc_min c \<le> batterij_niveau_kWh t \<and> batterij_niveau_kWh t \<le> soc_max c"
proof (induction rs arbitrary: s)
  case Nil
  then show ?case by simp
next
  case (Cons r rs)
  have r0: "0 \<le> afname r" using Cons.prems(1) by simp
  have "\<forall>t \<in> set (resultaten (stap c s r)).
          soc_min c \<le> batterij_niveau_kWh t \<and> batterij_niveau_kWh t \<le> soc_max c"
    using Cons.prems(2) stap_grenzen [OF assms r0, of s]
    by (subst resultaten_stap) auto
  moreover have "\<forall>r \<in> set rs. 0 \<le> afname r" using Cons.prems(1) by simp
  ultimately show ?case using Cons.IH [of "stap c s r"] by simp
qed

lemma lus_van_net:
  "energie_van_net (lus c s rs) - sum_list (map van_net_kWh (resultaten (lus c s rs)))
     = energie_van_net s - sum_list (map van_net_kWh (resultaten s))"
proof (induction rs arbitrary: s)
  case Nil
  show ?case by simp
next
  case (Cons r rs)
  have "sum_list (map van_net_kWh (resultaten (stap c s r)))
          = sum_list (map van_net_kWh (resultaten s)) + van_net_kWh (last (resultaten (stap c s r)))"
    by (subst stap_totalen(5)) simp
  then show ?case using Cons.IH [of "stap c s r"] stap_totalen(1) [of c s r] by simp
qed

lemma lus_naar_net:
  "energie_naar_net (lus c s rs) - sum_list (map naar_net_kWh (resultaten (lus c s rs)))
     = energie_naar_net s - sum_list (map naar_net_kWh (resultaten s))"
proof (induction rs arbitrary: s)
  case Nil
  show ?case by simp
next
  case (Cons r rs)
  have "sum_list (map naar_net_kWh (resultaten (stap c s r)))
          = sum_list (map naar_net_kWh (resultaten s)) + naar_net_kWh (last (resultaten (stap c s r)))"
    by (subst stap_totalen(5)) simp
  then show ?case using Cons.IH [of "stap c s r"] stap_totalen(2) [of c s r] by simp
qed

lemma lus_zonder_van_net:
  "energie_zonder_batterij_van_net (lus c s rs)
     = energie_zonder_batterij_van_net s + sum_list (map afname rs)"
  by (induction rs arbitrary: s) (simp_all add: stap_totalen(3))

lemma lus_zonder_naar_net:
  "energie_zonder_batterij_naar_net (lus c s rs)
     = energie_zonder_batterij_naar_net s + sum_list (map injectie rs)"
  by (induction rs arbitrary: s) (simp_all add: stap_totalen(4))

lemma lus_tijd:
  "map tijd (resultaten (lus c s rs)) = map tijd (resultaten s) @ map datetime rs"
proof (induction rs arbitrary: s)
  case Nil
  show ?case by simp
next
  case (Cons r rs)
  have "map tijd (resultaten (stap c s r)) = map tijd (resultaten s) @ [datetime r]"
    by (subst stap_totalen(5)) (simp add: stap_totalen(6))
  then show ?case using Cons.IH [of "stap c s r"] by simp
qed

lemma tijd_resultaten: "map tijd (resultaten (simulatie c df)) = map datetime df"
  by (simp add: simulatie_def lus_tijd begin_toestand_def)

section \<open>Sums per group\<close>

lemma som_per_groep:
  assumes "finite K"
  shows "key ` set xs \<subseteq> K \<Longrightarrow>
         sum_list (map f xs) = (\<Sum>k\<in>K. sum_list (map f (filter (\<lambda>x. key x = k) xs)))"
proof (induction xs)
  case Nil
  show ?case by simp
next
  case (Cons x xs)
  have kx: "key x \<in> K" using Cons.prems by simp
  have "(\<Sum>k\<in>K. sum_list (map f (filter (\<lambda>y. key y = k) (x # xs))))
          = (\<Sum>k\<in>K. (if key x = k then f x else 0) + sum_list (map f (filter (\<lambda>y. key y = k) xs)))"
    by (rule sum.cong) simp_all
  also have "\<dots> = (\<Sum>k\<in>K. if key x = k then f x else 0)
                    + (\<Sum>k\<in>K. sum_list (map f (filter (\<lambda>y. key y = k) xs)))"
    by (rule sum.distrib)
  also have "(\<Sum>k\<in>K. if key x = k then f x else 0) = f x"
    using assms kx by simp
  finally show ?case using Cons.IH Cons.prems by simp
qed

lemma som_groepen: "sum_list (map g (groepen p ts)) = sum g (p ` set ts)"
  by (simp add: groepen_def sum_list_distinct_conv_sum_set)

lemma groep_som_totaal:
  "(\<Sum>k\<in>p ` t ` set rows. groep_som p t col rows k) = sum_list (map col rows)"
proof -
  have "sum_list (map col rows)
          = (\<Sum>k\<in>p ` t ` set rows. sum_list (map col (filter (\<lambda>x. (p \<circ> t) x = k) rows)))"
    by (rule som_per_groep) (auto simp: image_comp)
  then show ?thesis by (simp add: groep_som_def)
qed

section \<open>Grid flows and row counts\<close>

lemma lus_lengte:
  "length (resultaten (lus c s rs)) = length (resultaten s) + length rs"
proof (induction rs arbitrary: s)
  case Nil
  show ?case by simp
next
  case (Cons r rs)
  have "length (resultaten (stap c s r)) = Suc (length (resultaten s))"
    by (subst stap_totalen(5)) simp
  then show ?case using Cons.IH [of "stap c s r"] by simp
qed

lemma simulatie_lengte: "length (resultaten (simulatie c df)) = length df"
  by (simp add: simulatie_def lus_lengte begin_toestand_def)

lemma naar_net_grenzen:
  assumes "0 \<le> eff_laden c" "0 \<le> max_vermogen_kW c" "0 \<le> inje" "niveau \<le> soc_max c"
  shows "0 \<le> naar_net c niveau inje \<and> naar_net c niveau inje \<le> inje"
proof -
  have "0 \<le> effectief_opladen c niveau inje
              / (eff_laden c * vertraging_laden c + epsilon_deler)"
    using effectief_opladen_nonneg [OF assms] deler_laden_pos [OF assms(1)] by simp
  then show ?thesis using assms(3) by (simp add: naar_net_def)
qed

lemma van_net_grenzen:
  assumes "0 \<le> eff_ontladen c" "0 \<le> max_vermogen_kW c" "0 \<le> afn" "soc_min c \<le> niveau"
  shows "0 \<le> van_net c niveau afn \<and> van_net c niveau afn \<le> afn"
proof -
  have "0 \<le> potentieel_ontladen c niveau afn * eff_ontladen c"
    using potentieel_ontladen_nonneg [OF assms] assms(1) by simp
  then have "0 \<le> effectief_ontladen c niveau afn"
    using vertraging_ontladen_grenzen [of c] by (simp add: effectief_ontladen_def)
  then show ?thesis using assms(3) by (simp add: van_net_def)
qed

lemma lus_niet_slechter:
  assumes "0 \<le> eff_laden c" "0 \<le> eff_ontladen c" "0 \<le> max_vermogen_kW c"
  shows "\<forall>r \<in> set rs. 0 \<le> afname r \<and> 0 \<le> injectie r \<Longrightarrow>
         soc_min c \<le> batterij_niveau s \<and> batterij_niveau s \<le> soc_max c \<Longrightarrow>
         \<forall>t \<in> set (resultaten s).
            0 \<le> van_net_kWh t \<and> van_net_kWh t \<le> afname_kWh t \<and>
            0 \<le> naar_net_kWh t \<and> naar_net_kWh t \<le> injectie_kWh t \<Longrightarrow>
         \<forall>t \<in> set (resultaten (lus c s rs)).
            0 \<le> van_net_kWh t \<and> van_net_kWh t \<le> afname_kWh t \<and>
            0 \<le> naar_net_kWh t \<and> naar_net_kWh t \<le> injectie_kWh t"
proof (induction rs arbitrary: s)
  case Nil
  then show ?case by simp
next
  case (Cons r rs)
  have a0: "0 \<le> afname r" and i0: "0 \<le> injectie r" using Cons.prems(1) by simp_all
  have lo: "soc_min c \<le> batterij_niveau s" and hi: "batterij_niveau s \<le> soc_max c"
    using Cons.prems(2) by simp_all
  define n1 where "n1 = batterij_niveau s + effectief_opladen c (batterij_niveau s) (injectie r)"
  have "0 \<le> effectief_opladen c (batterij_niveau s) (injectie r)"
    by (rule effectief_opladen_nonneg [OF assms(1) assms(3) i0 hi])
  then have n1_lo: "soc_min c \<le> n1" using lo by (simp add: n1_def)
  have nn: "0 \<le> naar_net c (batterij_niveau s) (injectie r)
            \<and> naar_net c (batterij_niveau s) (injectie r) \<le> injectie r"
    by (rule naar_net_grenzen [OF assms(1) assms(3) i0 hi])
  have vn: "0 \<le> van_net c n1 (afname r) \<and> van_net c n1 (afname r) \<le> afname r"
    by (rule van_net_grenzen [OF assms(2) assms(3) a0 n1_lo])
  have rows: "\<forall>t \<in> set (resultaten (stap c s r)).
            0 \<le> van_net_kWh t \<and> van_net_kWh t \<le> afname_kWh t \<and>
            0 \<le> naar_net_kWh t \<and> naar_net_kWh t \<le> injectie_kWh t"
    using Cons.prems(3) nn vn unfolding n1_def
    by (subst resultaten_stap) auto
  have mm: "soc_min c \<le> soc_max c" using lo hi by linarith
  have inv: "soc_min c \<le> batterij_niveau (stap c s r)
             \<and> batterij_niveau (stap c s r) \<le> soc_max c"
    by (rule stap_grenzen [OF mm assms(3) assms(2) a0])
  have rest: "\<forall>r \<in> set rs. 0 \<le> afname r \<and> 0 \<le> injectie r" using Cons.prems(1) by simp
  show ?case using Cons.IH [OF rest inv rows] by simp
qed

lemma sidebar_begin:
  assumes "sidebar_bereik c"
  shows "soc_min c \<le> batterij_niveau (begin_toestand c)
         \<and> batterij_niveau (begin_toestand c) \<le> soc_max c"
proof -
  have cap: "0 \<le> batterij_capaciteit c" using assms by (simp add: sidebar_bereik_def)
  have "soc_min_pct c / 100 \<le> 1 / 2" using assms by (simp add: sidebar_bereik_def)
  then have "soc_min_pct c / 100 * batterij_capaciteit c \<le> 1 / 2 * batterij_capaciteit c"
    using cap by (rule mult_right_mono)
  moreover have "1 / 2 \<le> soc_max_pct c / 100" using assms by (simp add: sidebar_bereik_def)
  then have "1 / 2 * batterij_capaciteit c \<le> soc_max_pct c / 100 * batterij_capaciteit c"
    using cap by (rule mult_right_mono)
  ultimately show ?thesis by (simp add: soc_min_def soc_max_def begin_toestand_def)
qed

section \<open>A battery without room\<close>




section \<open>Dwell-time percentages\<close>

lemma lus_leeg: "resultaten (simulatie c []) = []"
  by (simp add: simulatie_def begin_toestand_def)

lemma pct_grenzen:
  assumes "res \<noteq> []"
  shows "pct_vol c res = Inr (100 * tijd_vol_uren c res / tijd_totaal_uren res)
         \<and> 0 \<le> 100 * tijd_vol_uren c res / tijd_totaal_uren res
         \<and> 100 * tijd_vol_uren c res / tijd_totaal_uren res \<le> 100
         \<and> pct_leeg c res = Inr (100 * tijd_leeg_uren c res / tijd_totaal_uren res)
         \<and> 0 \<le> 100 * tijd_leeg_uren c res / tijd_totaal_uren res
         \<and> 100 * tijd_leeg_uren c res / tijd_totaal_uren res \<le> 100"
proof -
  have n: "0 < real (length res)" using assms by simp
  have v: "real (length (filter (is_vol c) res)) \<le> real (length res)" by simp
  have l: "real (length (filter (is_leeg c) res)) \<le> real (length res)" by simp
  have tv: "100 * tijd_vol_uren c res / tijd_totaal_uren res
              = 100 * (real (length (filter (is_vol c) res)) / real (length res))"
    by (simp add: tijd_vol_uren_def tijd_totaal_uren_def kwartier_uur_def)
  have tl: "100 * tijd_leeg_uren c res / tijd_totaal_uren res
              = 100 * (real (length (filter (is_leeg c) res)) / real (length res))"
    by (simp add: tijd_leeg_uren_def tijd_totaal_uren_def kwartier_uur_def)
  have qv: "0 \<le> real (length (filter (is_vol c) res)) / real (length res)
            \<and> real (length (filter (is_vol c) res)) / real (length res) \<le> 1"
    using n v by (simp add: divide_le_eq_1)
  have ql: "0 \<le> real (length (filter (is_leeg c) res)) / real (length res)
            \<and> real (length (filter (is_leeg c) res)) / real (length res) \<le> 1"
    using n l by (simp add: divide_le_eq_1)
  have bv: "0 \<le> 100 * tijd_vol_uren c res / tijd_totaal_uren res
            \<and> 100 * tijd_vol_uren c res / tijd_totaal_uren res \<le> 100"
    unfolding tv using qv by linarith
  have bl: "0 \<le> 100 * tijd_leeg_uren c res / tijd_totaal_uren res
            \<and> 100 * tijd_leeg_uren c res / tijd_totaal_uren res \<le> 100"
    unfolding tl using ql by linarith
  have pv: "pct_vol c res = Inr (100 * tijd_vol_uren c res / tijd_totaal_uren res)"
    using assms by (simp add: pct_vol_def)
  have pl: "pct_leeg c res = Inr (100 * tijd_leeg_uren c res / tijd_totaal_uren res)"
    using assms by (simp add: pct_leeg_def)
  show ?thesis using bv bl pv pl by blast
qed

section \<open>Efficiency times delay factor within the sidebar\<close>



section \<open>Worked examples\<close>

lemma standaard_bereik: "sidebar_bereik standaard"
  by (simp add: sidebar_bereik_def standaard_def)

lemma standaard_twee_kwartieren:
  "resultaten (simulatie standaard [kw 0 1 1, kw 15 2 0]) =
     [\<lparr>tijd = 0, afname_kWh = 1, injectie_kWh = 1, opladen_kWh = 5 / 8,
       ontladen_kWh = 1691 / 2880, van_net_kWh = 1189 / 2880,
       naar_net_kWh = 2830000009 / 8455000009, batterij_niveau_kWh = 5 / 2\<rparr>,
      \<lparr>tijd = 15, afname_kWh = 2, injectie_kWh = 0, opladen_kWh = 0,
       ontladen_kWh = 1691 / 2880, van_net_kWh = 4069 / 2880,
       naar_net_kWh = 0, batterij_niveau_kWh = 15 / 8\<rparr>]"
  by (simp add: stap_uitrekenen standaard_def)

lemma twee_kwartieren_nonneg:
  "\<forall>r \<in> set [kw 0 1 1, kw 15 2 0]. 0 \<le> afname r \<and> 0 \<le> injectie r"
  by (simp add: kw_def)

lemma soc_gelijk_negatief:
  "simulatie soc_gelijk [kw 0 (- 1) (- 2)] =
     \<lparr>batterij_niveau = 5 / 2, energie_op_batterij = - (1691 / 900),
      energie_van_net = 1239481 / 1620000, energie_naar_net = 0,
      energie_zonder_batterij_van_net = - 1,
      energie_zonder_batterij_naar_net = - 2,
      resultaten =
        [\<lparr>tijd = 0, afname_kWh = - 1, injectie_kWh = - 2,
          opladen_kWh = - (1691 / 900),
          ontladen_kWh = - (2859481 / 1620000),
          van_net_kWh = 1239481 / 1620000, naar_net_kWh = 0,
          batterij_niveau_kWh = 5 / 2\<rparr>]\<rparr>"
  by (simp add: stap_uitrekenen voorbeelden)



text \<open>A negative \<open>afname\<close> in the first quarter hour, followed by a well-formed one.\<close>

lemma standaard_na_negatief:
  "resultaten (simulatie standaard [kw 0 (- 10) 0, kw 15 0 1]) =
     [\<lparr>tijd = 0, afname_kWh = - 10, injectie_kWh = 0, opladen_kWh = 0,
       ontladen_kWh = - (84550000000 / 8455000009), van_net_kWh = 0,
       naar_net_kWh = 0, batterij_niveau_kWh = 222275000045 / 16910000018\<rparr>,
      \<lparr>tijd = 15, afname_kWh = 0, injectie_kWh = 1,
       opladen_kWh = - (73089999982 / 8455000009), ontladen_kWh = 0,
       van_net_kWh = 0,
       naar_net_kWh = 729297024990190000081 / 71487025152190000081,
       batterij_niveau_kWh = 9 / 2\<rparr>]"
  by (simp add: stap_uitrekenen standaard_def)



section \<open>The claims\<close>

text \<open>
  Claim C1 (bounds of the state of charge). For all settings the sidebar can give and all
  rows with non-negative \<open>afname\<close> and \<open>injectie\<close>, the loop starts at half the
  capacity and every row it emits has its battery level between \<open>soc_min\<close> and
  \<open>soc_max\<close>, with any tolerance \<open>eps \<ge> 0\<close> (in exact arithmetic also with none).
\<close>

theorem soc_grenzen:
  assumes "sidebar_bereik c"
    and "\<forall>r \<in> set df. 0 \<le> afname r \<and> 0 \<le> injectie r"
    and "0 \<le> eps"
  shows "batterij_niveau (begin_toestand c) = batterij_capaciteit c / 2 \<and>
         (\<forall>t \<in> set (resultaten (simulatie c df)).
            soc_min c - eps \<le> batterij_niveau_kWh t \<and> batterij_niveau_kWh t \<le> soc_max c + eps)"
proof -
  have c1: "soc_min c \<le> soc_max c" using assms(1) by (rule sidebar_soc)
  have c2: "0 \<le> max_vermogen_kW c" and c3: "0 \<le> eff_ontladen c"
    using assms(1) by (simp_all add: sidebar_bereik_def)
  have a: "\<forall>r \<in> set df. 0 \<le> afname r" using assms(2) by simp
  have "\<forall>t \<in> set (resultaten (simulatie c df)).
          soc_min c \<le> batterij_niveau_kWh t \<and> batterij_niveau_kWh t \<le> soc_max c"
    unfolding simulatie_def
    by (rule lus_grenzen [OF c1 c2 c3 a]) (simp add: begin_toestand_def)
  then have "\<forall>t \<in> set (resultaten (simulatie c df)).
          soc_min c - eps \<le> batterij_niveau_kWh t \<and> batterij_niveau_kWh t \<le> soc_max c + eps"
    using assms(3) by fastforce
  then show ?thesis by (simp add: begin_toestand_def)
qed

text \<open>The theorem used on the default settings and two quarter hours.\<close>

theorem soc_grenzen_witness:
  "sidebar_bereik standaard
   \<and> 0 \<le> afname (kw 0 1 1) \<and> 0 \<le> injectie (kw 0 1 1)
   \<and> 0 \<le> afname (kw 15 2 0) \<and> 0 \<le> injectie (kw 15 2 0)
   \<and> (0::real) \<le> 1 / 1000000
   \<and> map batterij_niveau_kWh (resultaten (simulatie standaard [kw 0 1 1, kw 15 2 0]))
       = [5 / 2, 15 / 8]
   \<and> soc_min standaard - 1 / 1000000 \<le> 5 / 2 \<and> 5 / 2 \<le> soc_max standaard + 1 / 1000000
   \<and> soc_min standaard - 1 / 1000000 \<le> 15 / 8 \<and> 15 / 8 \<le> soc_max standaard + 1 / 1000000"
proof -
  have e: "(0::real) \<le> 1 / 1000000" by simp
  have k: "0 \<le> afname (kw 0 1 1) \<and> 0 \<le> injectie (kw 0 1 1)
           \<and> 0 \<le> afname (kw 15 2 0) \<and> 0 \<le> injectie (kw 15 2 0)"
    by (simp add: kw_def)
  have m: "map batterij_niveau_kWh (resultaten (simulatie standaard [kw 0 1 1, kw 15 2 0]))
             = [5 / 2, 15 / 8]"
    by (simp add: standaard_twee_kwartieren)
  have "soc_min standaard - 1 / 1000000 \<le> 5 / 2 \<and> 5 / 2 \<le> soc_max standaard + 1 / 1000000
        \<and> soc_min standaard - 1 / 1000000 \<le> 15 / 8 \<and> 15 / 8 \<le> soc_max standaard + 1 / 1000000"
    using soc_grenzen [OF standaard_bereik twee_kwartieren_nonneg e]
    by (simp add: standaard_twee_kwartieren)
  then show ?thesis using standaard_bereik e k m by simp
qed

text \<open>
  Claim C7 (rate limits). In every step, from any state, the energy charged and the energy
  taken out of the battery are each at most \<open>max_vermogen_kW\<close> times a quarter of an
  hour. The last two parts read both amounts off the state and the emitted row: the
  discharge is the drop of the level after the charge was added.
\<close>

theorem vermogensgrens:
  "effectief_opladen c niveau inje \<le> max_energie_per_kwartier c
   \<and> potentieel_ontladen c niveau afn \<le> max_energie_per_kwartier c
   \<and> max_energie_per_kwartier c = max_vermogen_kW c * (1 / 4)
   \<and> opladen_kWh (last (resultaten (stap c s r))) \<le> max_energie_per_kwartier c
   \<and> batterij_niveau s + opladen_kWh (last (resultaten (stap c s r)))
       - batterij_niveau (stap c s r) \<le> max_energie_per_kwartier c"
proof -
  have a: "effectief_opladen c x y \<le> max_energie_per_kwartier c" for x y
    by (simp add: effectief_opladen_def min.coboundedI2)
  have b: "potentieel_ontladen c x y \<le> max_energie_per_kwartier c" for x y
    by (simp add: potentieel_ontladen_def min.coboundedI2)
  have d: "max_energie_per_kwartier c = max_vermogen_kW c * (1 / 4)"
    by (simp add: max_energie_per_kwartier_def kwartier_uur_def)
  have o: "opladen_kWh (last (resultaten (stap c s r)))
             = effectief_opladen c (batterij_niveau s) (injectie r)"
    by (simp add: resultaten_stap)
  have n: "batterij_niveau s + effectief_opladen c (batterij_niveau s) (injectie r)
             - batterij_niveau (stap c s r)
           = potentieel_ontladen c
               (batterij_niveau s + effectief_opladen c (batterij_niveau s) (injectie r))
               (afname r)"
    by (simp add: batterij_niveau_stap)
  show ?thesis unfolding o n by (intro conjI a b d)
qed

text \<open>
  Claim C5 (financial identity). The monthly profits add up to the total saving computed
  from the totals of the run, for every function \<open>p\<close> that assigns months to time
  stamps.
\<close>

theorem financiele_identiteit:
  "sum_list (map snd (maand_winst p c df (resultaten (simulatie c df))))
     = besparing c (simulatie c df)"
proof -
  define res where "res = resultaten (simulatie c df)"
  define K where "K = p ` set (map datetime df)"
  have tijd_eq: "map tijd res = map datetime df"
    by (simp add: res_def tijd_resultaten)
  have Kres: "K = p ` tijd ` set res"
    using tijd_eq by (metis K_def set_map)
  have Kdf: "K = p ` datetime ` set df"
    by (simp add: K_def)
  have a: "(\<Sum>k\<in>K. groep_som p datetime afname df k) = sum_list (map afname df)"
    unfolding Kdf by (rule groep_som_totaal)
  have b: "(\<Sum>k\<in>K. groep_som p datetime injectie df k) = sum_list (map injectie df)"
    unfolding Kdf by (rule groep_som_totaal)
  have v: "(\<Sum>k\<in>K. groep_som p tijd van_net_kWh res k) = sum_list (map van_net_kWh res)"
    unfolding Kres by (rule groep_som_totaal)
  have n: "(\<Sum>k\<in>K. groep_som p tijd naar_net_kWh res k) = sum_list (map naar_net_kWh res)"
    unfolding Kres by (rule groep_som_totaal)
  have t1: "energie_van_net (simulatie c df) = sum_list (map van_net_kWh res)"
    using lus_van_net [of c "begin_toestand c" df]
    by (simp add: simulatie_def res_def begin_toestand_def)
  have t2: "energie_naar_net (simulatie c df) = sum_list (map naar_net_kWh res)"
    using lus_naar_net [of c "begin_toestand c" df]
    by (simp add: simulatie_def res_def begin_toestand_def)
  have t3: "energie_zonder_batterij_van_net (simulatie c df) = sum_list (map afname df)"
    by (simp add: simulatie_def lus_zonder_van_net begin_toestand_def)
  have t4: "energie_zonder_batterij_naar_net (simulatie c df) = sum_list (map injectie df)"
    by (simp add: simulatie_def lus_zonder_naar_net begin_toestand_def)
  have "sum_list (map snd (maand_winst p c df res))
          = (\<Sum>k\<in>K. (groep_som p datetime afname df k - groep_som p tijd van_net_kWh res k)
                        * prijs_import c
                      + (groep_som p tijd naar_net_kWh res k - groep_som p datetime injectie df k)
                        * prijs_export c)"
    by (simp add: maand_winst_def comp_def som_groepen tijd_eq K_def)
  also have "\<dots> = ((\<Sum>k\<in>K. groep_som p datetime afname df k)
                      - (\<Sum>k\<in>K. groep_som p tijd van_net_kWh res k)) * prijs_import c
                    + ((\<Sum>k\<in>K. groep_som p tijd naar_net_kWh res k)
                      - (\<Sum>k\<in>K. groep_som p datetime injectie df k)) * prijs_export c"
    by (simp add: sum.distrib sum_subtractf [symmetric] sum_distrib_right)
  also have "\<dots> = besparing c (simulatie c df)"
    by (simp add: a b v n besparing_def t1 t2 t3 t4)
  finally show ?thesis by (simp add: res_def)
qed

text \<open>
  Claim C4 (the worked scenario). Capacity 5, power 2.5, both efficiencies 0.95, bounds 10
  and 90 percent, no reaction time, one quarter hour with \<open>afname = 0\<close> and
  \<open>injectie = 1\<close>, starting at 2.5: the three candidates are 0.95, 0.625 and 2, the
  charge is 0.625, the level becomes 3.125. The script divides by \<open>0.95 + 1e-9\<close>, so
  the energy sent to the grid is \<open>1 - 0.625 / 0.950000001\<close>, which is within
  \<open>1e-9\<close> of \<open>1 - 0.625 / 0.95\<close> and rounds to 0.342.
\<close>

theorem scenario:
  "batterij_niveau (begin_toestand zonder_reactietijd) = 5 / 2
   \<and> potentieel_opladen zonder_reactietijd 1 = 95 / 100
   \<and> max_energie_per_kwartier zonder_reactietijd = 625 / 1000
   \<and> soc_max zonder_reactietijd - 5 / 2 = 2
   \<and> effectief_opladen zonder_reactietijd (5 / 2) 1 = 625 / 1000
   \<and> resultaten (simulatie zonder_reactietijd [kw 0 0 1]) =
       [\<lparr>tijd = 0, afname_kWh = 0, injectie_kWh = 1, opladen_kWh = 625 / 1000,
         ontladen_kWh = 0, van_net_kWh = 0,
         naar_net_kWh = 1 - (625 / 1000) / (95 / 100 + 1 / 1000000000),
         batterij_niveau_kWh = 3125 / 1000\<rparr>]
   \<and> \<bar>naar_net zonder_reactietijd (5 / 2) 1 - (1 - (625 / 1000) / (95 / 100))\<bar> < 1 / 1000000000
   \<and> \<bar>naar_net zonder_reactietijd (5 / 2) 1 - 342 / 1000\<bar> < 1 / 1000"
  by (simp add: stap_uitrekenen voorbeelden)

text \<open>
  Claim C10 (the battery never worsens the grid flows), as amended. For all settings the
  sidebar can give and a run in which every row has non-negative \<open>afname\<close> and
  \<open>injectie\<close>, every emitted row takes at most \<open>afname\<close> from the grid and sends at
  most \<open>injectie\<close> to it, within any tolerance \<open>eps > 0\<close>, and neither amount is
  negative. The condition is on the whole run, not on the row alone, and the tolerance
  covers the rounding of the script's doubles (in exact arithmetic the two bounds hold
  without it, lemma \<open>lus_niet_slechter\<close>).
\<close>

theorem niet_slechter:
  assumes "sidebar_bereik c"
    and "\<forall>r \<in> set df. 0 \<le> afname r \<and> 0 \<le> injectie r"
    and "0 < eps"
  shows "\<forall>t \<in> set (resultaten (simulatie c df)).
            0 \<le> van_net_kWh t \<and> van_net_kWh t \<le> afname_kWh t + eps \<and>
            0 \<le> naar_net_kWh t \<and> naar_net_kWh t \<le> injectie_kWh t + eps"
proof -
  have e1: "0 \<le> eff_laden c" and e2: "0 \<le> eff_ontladen c" and m: "0 \<le> max_vermogen_kW c"
    using assms(1) by (simp_all add: sidebar_bereik_def)
  have "\<forall>t \<in> set (resultaten (simulatie c df)).
            0 \<le> van_net_kWh t \<and> van_net_kWh t \<le> afname_kWh t \<and>
            0 \<le> naar_net_kWh t \<and> naar_net_kWh t \<le> injectie_kWh t"
    unfolding simulatie_def
    by (rule lus_niet_slechter [OF e1 e2 m assms(2) sidebar_begin [OF assms(1)]])
       (simp add: begin_toestand_def)
  then show ?thesis using assms(3) by fastforce
qed

text \<open>The theorem used on the default settings and two quarter hours.\<close>

theorem niet_slechter_witness:
  "sidebar_bereik standaard
   \<and> 0 \<le> afname (kw 0 1 1) \<and> 0 \<le> injectie (kw 0 1 1)
   \<and> 0 \<le> afname (kw 15 2 0) \<and> 0 \<le> injectie (kw 15 2 0)
   \<and> (0::real) < 1 / 1000000
   \<and> map (\<lambda>t. (afname_kWh t, van_net_kWh t, injectie_kWh t, naar_net_kWh t))
         (resultaten (simulatie standaard [kw 0 1 1, kw 15 2 0]))
       = [(1, 1189 / 2880, 1, 2830000009 / 8455000009), (2, 4069 / 2880, 0, 0)]
   \<and> (0::real) \<le> 1189 / 2880 \<and> (1189 / 2880 :: real) \<le> 1 + 1 / 1000000
   \<and> (0::real) \<le> 2830000009 / 8455000009
   \<and> (2830000009 / 8455000009 :: real) \<le> 1 + 1 / 1000000
   \<and> (0::real) \<le> 4069 / 2880 \<and> (4069 / 2880 :: real) \<le> 2 + 1 / 1000000"
proof -
  have k: "0 \<le> afname (kw 0 1 1) \<and> 0 \<le> injectie (kw 0 1 1)
           \<and> 0 \<le> afname (kw 15 2 0) \<and> 0 \<le> injectie (kw 15 2 0)"
    by (simp add: kw_def)
  have e: "(0::real) < 1 / 1000000" by simp
  have m: "map (\<lambda>t. (afname_kWh t, van_net_kWh t, injectie_kWh t, naar_net_kWh t))
         (resultaten (simulatie standaard [kw 0 1 1, kw 15 2 0]))
       = [(1, 1189 / 2880, 1, 2830000009 / 8455000009), (2, 4069 / 2880, 0, 0)]"
    by (simp add: standaard_twee_kwartieren)
  have "(0::real) \<le> 1189 / 2880 \<and> (1189 / 2880 :: real) \<le> 1 + 1 / 1000000
   \<and> (0::real) \<le> 2830000009 / 8455000009
   \<and> (2830000009 / 8455000009 :: real) \<le> 1 + 1 / 1000000
   \<and> (0::real) \<le> 4069 / 2880 \<and> (4069 / 2880 :: real) \<le> 2 + 1 / 1000000"
    using niet_slechter [OF standaard_bereik twee_kwartieren_nonneg e]
    by (simp add: standaard_twee_kwartieren)
  then show ?thesis using standaard_bereik k e m by simp
qed

text \<open>
  Claim C10 as stated fails: the condition on the row alone is not enough. With the default
  settings, a first row with \<open>afname = -10\<close> lifts the level above the maximum, and the
  second row, whose \<open>afname = 0\<close> and \<open>injectie = 1\<close> are not negative, then charges a
  negative amount and sends more than ten times its \<open>injectie\<close> to the grid.
\<close>

theorem niet_slechter_counterexample:
  "sidebar_bereik standaard
   \<and> 0 \<le> afname (kw 15 0 1) \<and> 0 \<le> injectie (kw 15 0 1)
   \<and> resultaten (simulatie standaard [kw 0 (- 10) 0, kw 15 0 1]) =
       [\<lparr>tijd = 0, afname_kWh = - 10, injectie_kWh = 0, opladen_kWh = 0,
         ontladen_kWh = - (84550000000 / 8455000009), van_net_kWh = 0,
         naar_net_kWh = 0, batterij_niveau_kWh = 222275000045 / 16910000018\<rparr>,
        \<lparr>tijd = 15, afname_kWh = 0, injectie_kWh = 1,
         opladen_kWh = - (73089999982 / 8455000009), ontladen_kWh = 0,
         van_net_kWh = 0,
         naar_net_kWh = 729297024990190000081 / 71487025152190000081,
         batterij_niveau_kWh = 9 / 2\<rparr>]
   \<and> naar_net_kWh (last (resultaten (simulatie standaard [kw 0 (- 10) 0, kw 15 0 1])))
       > 10 * injectie_kWh (last (resultaten (simulatie standaard [kw 0 (- 10) 0, kw 15 0 1])))"
proof -
  have k: "0 \<le> afname (kw 15 0 1) \<and> 0 \<le> injectie (kw 15 0 1)"
    by (simp add: kw_def)
  have g: "naar_net_kWh (last (resultaten (simulatie standaard [kw 0 (- 10) 0, kw 15 0 1])))
       > 10 * injectie_kWh (last (resultaten (simulatie standaard [kw 0 (- 10) 0, kw 15 0 1])))"
    by (simp add: standaard_na_negatief)
  show ?thesis using standaard_bereik k g standaard_na_negatief by simp
qed




text \<open>
  Claim C9 (dwell-time percentages), at the input where it fails. With no rows the loop
  emits nothing, and neither percentage is a number: reading the level column of the empty
  frame raises \<open>KeyError\<close>, so the run ends without a summary. Lemma \<open>pct_grenzen\<close>
  above gives both percentages between 0 and 100 as soon as there is one row.
\<close>

theorem percentages_zonder_rijen:
  "resultaten (simulatie c []) = []
   \<and> pct_vol c (resultaten (simulatie c [])) = Inl KeyError
   \<and> pct_leeg c (resultaten (simulatie c [])) = Inl KeyError
   \<and> simulatie_uitvoeren c [] = Inl KeyError"
  by (simp add: lus_leeg simulatie_uitvoeren_def pct_vol_def pct_leeg_def Let_def)

text \<open>
  Claim C3 (fail-fast validation), as amended. The script validates nothing: whatever the
  settings and whatever the values in the rows, a run over at least one row reaches the
  summary, after one step per row.
\<close>

theorem geen_validatie:
  assumes "df \<noteq> []"
  shows "\<exists>sv. simulatie_uitvoeren c df = Inr sv
              \<and> eindtoestand sv = simulatie c df
              \<and> length (resultaten (eindtoestand sv)) = length df"
proof -
  have "resultaten (simulatie c df) \<noteq> []"
    using assms simulatie_lengte [of c df] by auto
  then show ?thesis
    by (simp add: simulatie_uitvoeren_def pct_vol_def pct_leeg_def Let_def simulatie_lengte)
qed

text \<open>The theorem used on settings and a row that the claim calls invalid.\<close>

theorem geen_validatie_witness:
  "[kw 0 (- 1) (- 2)] \<noteq> []
   \<and> (\<exists>sv. simulatie_uitvoeren soc_gelijk [kw 0 (- 1) (- 2)] = Inr sv
          \<and> eindtoestand sv = simulatie soc_gelijk [kw 0 (- 1) (- 2)]
          \<and> length (resultaten (eindtoestand sv)) = length [kw 0 (- 1) (- 2)])"
proof -
  have n: "[kw 0 (- 1) (- 2)] \<noteq> []" by simp
  show ?thesis using geen_validatie [OF n, of soc_gelijk] n by simp
qed

text \<open>
  Claim C3 as stated fails: with both state-of-charge sliders at 50 (so the minimum is not
  below the maximum) and a row whose two energies are negative, the run does not fail; it
  executes the step and returns this summary.
\<close>

theorem validatie_counterexample:
  "sidebar_bereik soc_gelijk
   \<and> soc_min_pct soc_gelijk \<ge> soc_max_pct soc_gelijk
   \<and> afname (kw 0 (- 1) (- 2)) < 0 \<and> injectie (kw 0 (- 1) (- 2)) < 0
   \<and> simulatie_uitvoeren soc_gelijk [kw 0 (- 1) (- 2)] =
       Inr \<lparr>eindtoestand =
              \<lparr>batterij_niveau = 5 / 2, energie_op_batterij = - (1691 / 900),
               energie_van_net = 1239481 / 1620000, energie_naar_net = 0,
               energie_zonder_batterij_van_net = - 1,
               energie_zonder_batterij_naar_net = - 2,
               resultaten =
                 [\<lparr>tijd = 0, afname_kWh = - 1, injectie_kWh = - 2,
                   opladen_kWh = - (1691 / 900),
                   ontladen_kWh = - (2859481 / 1620000),
                   van_net_kWh = 1239481 / 1620000, naar_net_kWh = 0,
                   batterij_niveau_kWh = 5 / 2\<rparr>]\<rparr>,
            batterij_vol_uren = 1 / 4, batterij_leeg_uren = 1 / 4,
            batterij_vol_pct = 100, batterij_leeg_pct = 100,
            besparing_euro = - (2103481 / 5400000)\<rparr>"
proof -
  have a: "sidebar_bereik soc_gelijk \<and> soc_min_pct soc_gelijk \<ge> soc_max_pct soc_gelijk"
    by (simp add: sidebar_bereik_def voorbeelden)
  have b: "afname (kw 0 (- 1) (- 2)) < 0 \<and> injectie (kw 0 (- 1) (- 2)) < 0"
    by (simp add: kw_def)
  have s: "soc_min soc_gelijk = 5 / 2" "soc_max soc_gelijk = 5 / 2"
    "prijs_import soc_gelijk = 30 / 100" "prijs_export soc_gelijk = 7 / 100"
    by (simp_all add: soc_min_def soc_max_def voorbeelden)
  have r: "simulatie_uitvoeren soc_gelijk [kw 0 (- 1) (- 2)] =
       Inr \<lparr>eindtoestand =
              \<lparr>batterij_niveau = 5 / 2, energie_op_batterij = - (1691 / 900),
               energie_van_net = 1239481 / 1620000, energie_naar_net = 0,
               energie_zonder_batterij_van_net = - 1,
               energie_zonder_batterij_naar_net = - 2,
               resultaten =
                 [\<lparr>tijd = 0, afname_kWh = - 1, injectie_kWh = - 2,
                   opladen_kWh = - (1691 / 900),
                   ontladen_kWh = - (2859481 / 1620000),
                   van_net_kWh = 1239481 / 1620000, naar_net_kWh = 0,
                   batterij_niveau_kWh = 5 / 2\<rparr>]\<rparr>,
            batterij_vol_uren = 1 / 4, batterij_leeg_uren = 1 / 4,
            batterij_vol_pct = 100, batterij_leeg_pct = 100,
            besparing_euro = - (2103481 / 5400000)\<rparr>"
    unfolding simulatie_uitvoeren_def soc_gelijk_negatief
    by (simp add: Let_def pct_vol_def pct_leeg_def tijd_vol_uren_def tijd_leeg_uren_def
        tijd_totaal_uren_def is_vol_def is_leeg_def besparing_def kwartier_uur_def s)
  show ?thesis using a b r by simp
qed




text \<open>
  Claim C8 (charge first). The level after a step is the level before it plus the charge,
  minus a discharge that is computed from the level with the charge already added and is
  bounded by the room between that level and the minimum; the emitted discharge is computed
  from that same level. So one row can both charge and discharge: with the battery starting
  exactly at its minimum and \<open>afname = injectie = 1\<close>, the row charges 0.625 and
  delivers a positive amount, which the level before the charge would not have allowed.
\<close>

theorem eerst_laden:
  "batterij_niveau (stap c s r)
     = (batterij_niveau s + effectief_opladen c (batterij_niveau s) (injectie r))
       - potentieel_ontladen c
           (batterij_niveau s + effectief_opladen c (batterij_niveau s) (injectie r))
           (afname r)
   \<and> potentieel_ontladen c
         (batterij_niveau s + effectief_opladen c (batterij_niveau s) (injectie r)) (afname r)
       \<le> (batterij_niveau s + effectief_opladen c (batterij_niveau s) (injectie r)) - soc_min c
   \<and> ontladen_kWh (last (resultaten (stap c s r)))
       = effectief_ontladen c
           (batterij_niveau s + effectief_opladen c (batterij_niveau s) (injectie r))
           (afname r)
   \<and> batterij_niveau (begin_toestand start_op_minimum) - soc_min start_op_minimum = 0
   \<and> resultaten (simulatie start_op_minimum [kw 0 1 1]) =
       [\<lparr>tijd = 0, afname_kWh = 1, injectie_kWh = 1, opladen_kWh = 5 / 8,
         ontladen_kWh = 1691 / 2880, van_net_kWh = 1189 / 2880,
         naar_net_kWh = 2830000009 / 8455000009, batterij_niveau_kWh = 5 / 2\<rparr>]"
proof -
  have a: "batterij_niveau (begin_toestand start_op_minimum) - soc_min start_op_minimum = 0"
    by (simp add: begin_toestand_def soc_min_def voorbeelden)
  have b: "resultaten (simulatie start_op_minimum [kw 0 1 1]) =
       [\<lparr>tijd = 0, afname_kWh = 1, injectie_kWh = 1, opladen_kWh = 5 / 8,
         ontladen_kWh = 1691 / 2880, van_net_kWh = 1189 / 2880,
         naar_net_kWh = 2830000009 / 8455000009, batterij_niveau_kWh = 5 / 2\<rparr>]"
    by (simp add: stap_uitrekenen voorbeelden)
  have o: "ontladen_kWh (last (resultaten (stap c s r)))
       = effectief_ontladen c
           (batterij_niveau s + effectief_opladen c (batterij_niveau s) (injectie r))
           (afname r)"
    by (simp add: resultaten_stap)
  show ?thesis
    using a b o batterij_niveau_stap [of c s r]
      potentieel_ontladen_ruimte
        [of c "batterij_niveau s + effectief_opladen c (batterij_niveau s) (injectie r)" "afname r"]
    by blast
qed

end
